theory Spec2Isabelle
  imports Main
begin

section \<open>JavaScript values\<close>

text \<open>
  The library never inspects a payload or a result, so the values that flow through it
  are left abstract, with one exception: \<open>undefined\<close>, which \<open>Receiver.receive\<close>
  returns for an unknown key and which \<open>Sender.send\<close> forwards when the payload is
  omitted.
\<close>

datatype 'a jsval = Undefined | Val 'a

text \<open>
  A promise is modelled by how it settles: fulfilled with a value, rejected with a
  reason, or never settled.
\<close>

datatype ('e, 'r) promise = Fulfilled "'r jsval" | Rejected 'e | Pending

text \<open>
  A call completes normally with a value (\<open>Inr\<close>) or abruptly with the thrown
  value (\<open>Inl\<close>). \<open>await\<close> on the completion of an expression: a thrown value
  stays thrown, a value that is no promise is the result, a fulfilled promise gives its
  value, a rejected one throws its reason, and a promise that never settles never
  resumes (\<open>None\<close>).
\<close>

fun await :: "'e + ('e, 'r) promise jsval \<Rightarrow> ('e + 'r jsval) option" where
  "await (Inl e) = Some (Inl e)"
| "await (Inr Undefined) = Some (Inr Undefined)"
| "await (Inr (Val (Fulfilled v))) = Some (Inr v)"
| "await (Inr (Val (Rejected e))) = Some (Inl e)"
| "await (Inr (Val Pending)) = None"

section \<open>receiver.ts\<close>

text \<open>
  A \<open>Map\<close> object lives in a store and is reached through a reference: a
  \<open>Router\<close> keeps a reference to the very \<open>Map\<close> of the \<open>Receiver\<close> that
  made it. Only \<open>has\<close>, \<open>get\<close> and \<open>set\<close> are used, so a \<open>Map\<close> is
  a partial function from keys to handlers.

  A handler is a function object: called with the payload, it acts on the world
  outside the library (type \<open>'w\<close>) and completes with a value or a thrown value.
  Handlers are total, and the world they act on does not contain the routing tables.
\<close>

type_synonym ref = nat

type_synonym ('p, 'e, 'v, 'w) Handler = "'p \<Rightarrow> 'w \<Rightarrow> ('e + 'v jsval) \<times> 'w"

record ('k, 'h, 'w) state =
  maps :: "ref \<Rightarrow> 'k \<rightharpoonup> 'h"
  next_ref :: ref
  world :: 'w

datatype js_error = Error string

datatype 'k Router = Router (Router_key: 'k) (Router_routes: ref)

datatype Receiver = Receiver (Receiver_routes: ref)

text \<open>\<open>Router.to\<close>: \<open>this.routes.set(this.key, handler)\<close>; returns nothing.\<close>

definition to ::
  "'k Router \<Rightarrow> 'h \<Rightarrow> ('k, 'h, 'w) state \<Rightarrow> (js_error + unit) \<times> ('k, 'h, 'w) state" where
  "to this handler s =
     (Inr (),
      s\<lparr>maps := (maps s)(Router_routes this :=
                    (maps s (Router_routes this))(Router_key this \<mapsto> handler))\<rparr>)"

text \<open>\<open>new Receiver()\<close>: the field initialiser allocates a fresh, empty \<open>Map\<close>.\<close>

definition new_Receiver :: "('k, 'h, 'w) state \<Rightarrow> Receiver \<times> ('k, 'h, 'w) state" where
  "new_Receiver s =
     (Receiver (next_ref s),
      s\<lparr>maps := (maps s)(next_ref s := Map.empty), next_ref := Suc (next_ref s)\<rparr>)"

text \<open>
  \<open>Receiver.route\<close>. \<open>String\<close> is JavaScript's conversion of a key to a string,
  a parameter of the model.
\<close>

definition route ::
  "('k \<Rightarrow> string) \<Rightarrow> Receiver \<Rightarrow> 'k \<Rightarrow> ('k, 'h, 'w) state
     \<Rightarrow> (js_error + 'k Router) \<times> ('k, 'h, 'w) state" where
  "route String this key s =
     (if maps s (Receiver_routes this) key \<noteq> None
      then (Inl (Error (''The route on '' @ [CHR 0x22] @ String key @ [CHR 0x22]
                        @ '' is already exists'')), s)
      else (Inr (Router key (Receiver_routes this)), s))"

text \<open>
  \<open>Receiver.receive\<close>. The local \<open>route\<close> of the source is \<open>route'\<close> here;
  \<open>get\<close> gives \<open>undefined\<close> exactly for a key with no entry, since every entry
  holds a function.
\<close>

definition receive ::
  "Receiver \<Rightarrow> 'k \<Rightarrow> 'p \<Rightarrow> ('k, ('p, 'e, 'v, 'w) Handler, 'w) state
     \<Rightarrow> ('e + 'v jsval) \<times> ('k, ('p, 'e, 'v, 'w) Handler, 'w) state" where
  "receive this key args s =
     (case maps s (Receiver_routes this) key of
        None \<Rightarrow> (Inr Undefined, s)
      | Some route' \<Rightarrow>
          (let (result, w) = route' args (world s) in (result, s\<lparr>world := w\<rparr>)))"

section \<open>receiverWithContext.ts\<close>

text \<open>
  The same three operations, on handlers that take a context before the payload. The
  context is an argument of \<open>receive\<close>; the table stores the handlers only.
\<close>

type_synonym ('c, 'p, 'e, 'v, 'w) HandlerWithContext =
  "'c \<Rightarrow> 'p \<Rightarrow> 'w \<Rightarrow> ('e + 'v jsval) \<times> 'w"

datatype 'k RouterWithContext =
  RouterWithContext (RouterWithContext_key: 'k) (RouterWithContext_routes: ref)

datatype ReceiverWithContext = ReceiverWithContext (ReceiverWithContext_routes: ref)

definition RouterWithContext_to ::
  "'k RouterWithContext \<Rightarrow> 'h \<Rightarrow> ('k, 'h, 'w) state
     \<Rightarrow> (js_error + unit) \<times> ('k, 'h, 'w) state" where
  "RouterWithContext_to this handler s =
     (Inr (),
      s\<lparr>maps := (maps s)(RouterWithContext_routes this :=
                    (maps s (RouterWithContext_routes this))
                      (RouterWithContext_key this \<mapsto> handler))\<rparr>)"

definition new_ReceiverWithContext ::
  "('k, 'h, 'w) state \<Rightarrow> ReceiverWithContext \<times> ('k, 'h, 'w) state" where
  "new_ReceiverWithContext s =
     (ReceiverWithContext (next_ref s),
      s\<lparr>maps := (maps s)(next_ref s := Map.empty), next_ref := Suc (next_ref s)\<rparr>)"

definition ReceiverWithContext_route ::
  "('k \<Rightarrow> string) \<Rightarrow> ReceiverWithContext \<Rightarrow> 'k \<Rightarrow> ('k, 'h, 'w) state
     \<Rightarrow> (js_error + 'k RouterWithContext) \<times> ('k, 'h, 'w) state" where
  "ReceiverWithContext_route String this key s =
     (if maps s (ReceiverWithContext_routes this) key \<noteq> None
      then (Inl (Error (''The route on '' @ [CHR 0x22] @ String key @ [CHR 0x22]
                        @ '' is already exists'')), s)
      else (Inr (RouterWithContext key (ReceiverWithContext_routes this)), s))"

definition ReceiverWithContext_receive ::
  "ReceiverWithContext \<Rightarrow> 'c \<Rightarrow> 'k \<Rightarrow> 'p
     \<Rightarrow> ('k, ('c, 'p, 'e, 'v, 'w) HandlerWithContext, 'w) state
     \<Rightarrow> ('e + 'v jsval) \<times> ('k, ('c, 'p, 'e, 'v, 'w) HandlerWithContext, 'w) state" where
  "ReceiverWithContext_receive this ctx key args s =
     (case maps s (ReceiverWithContext_routes this) key of
        None \<Rightarrow> (Inr Undefined, s)
      | Some route' \<Rightarrow>
          (let (result, w) = route' ctx args (world s) in (result, s\<lparr>world := w\<rparr>)))"

section \<open>sender.ts\<close>

text \<open>
  The transport adapter is a function object of the integrator: called with the key and
  the payload, it acts on a state of its own choosing (type \<open>'s\<close>) and completes with a
  value or a thrown value. A \<open>Sender\<close> holds the adapter and nothing else.
\<close>

datatype ('k, 'p, 'e, 'v, 's) Sender =
  Sender (sender: "'k \<Rightarrow> 'p jsval \<Rightarrow> 's \<Rightarrow> ('e + 'v) \<times> 's")

text \<open>
  \<open>Sender.send\<close>. The arguments after the key are a rest parameter, destructured as
  \<open>...[args]\<close>: \<open>args\<close> is the first of them, and \<open>undefined\<close> when there is none.
\<close>

definition send ::
  "('k, 'p, 'e, 'v, 's) Sender \<Rightarrow> 'k \<Rightarrow> 'p jsval list \<Rightarrow> 's \<Rightarrow> ('e + 'v) \<times> 's" where
  "send this key rest s =
     (let args = (case rest of [] \<Rightarrow> Undefined | a # _ \<Rightarrow> a)
      in sender this key args s)"

section \<open>types.ts\<close>

text \<open>
  The utility types are functions from types to types. A type is a term of \<open>ty\<close>; a
  schema is an object type, the list of its keys with their \<open>Duplex\<close>; a union type
  is the set of its members.
\<close>

datatype ty =
  undefined_ty | void_ty | unknown_ty | number_ty | string_ty | object_ty "(string \<times> ty) list"

record Duplex =
  Request :: ty
  Response :: ty

text \<open>\<open>Duplex<Req = undefined, Resp = void>\<close>: an omitted parameter takes its default.\<close>

definition Duplex :: "ty option \<Rightarrow> ty option \<Rightarrow> Duplex" where
  "Duplex Req Resp =
     \<lparr>Request = (case Req of None \<Rightarrow> undefined_ty | Some t \<Rightarrow> t),
      Response = (case Resp of None \<Rightarrow> void_ty | Some t \<Rightarrow> t)\<rparr>"

definition KeyOf :: "('k \<times> Duplex) list \<Rightarrow> 'k list" where
  "KeyOf Schema = map fst Schema"

definition RequestOf :: "'k \<Rightarrow> ('k \<times> Duplex) list \<Rightarrow> ty option" where
  "RequestOf Key Schema = map_option Request (map_of Schema Key)"

definition ResponseOf :: "'k \<Rightarrow> ('k \<times> Duplex) list \<Rightarrow> ty option" where
  "ResponseOf Key Schema = map_option Response (map_of Schema Key)"

definition RequestsOf :: "('k \<times> Duplex) list \<Rightarrow> ty set" where
  "RequestsOf Schema =
     set (List.map_filter (\<lambda>Key. map_option Request (map_of Schema Key)) (KeyOf Schema))"

definition ResponsesOf :: "('k \<times> Duplex) list \<Rightarrow> ty set" where
  "ResponsesOf Schema =
     set (List.map_filter (\<lambda>Key. map_option Request (map_of Schema Key)) (KeyOf Schema))"

text \<open>
  The type of the rest parameter of \<open>send\<close>:
  \<open>RequestOf<Key, Schema> extends undefined ? [undefined?] : [RequestOf<Key, Schema>]\<close>.
  Among the types of \<open>ty\<close> only \<open>undefined\<close> is assignable to \<open>undefined\<close>.
\<close>

datatype rest_ty = Optional_undefined | Required ty

definition extends_undefined :: "ty \<Rightarrow> bool" where
  "extends_undefined t = (t = undefined_ty)"

definition send_rest :: "'k \<Rightarrow> ('k \<times> Duplex) list \<Rightarrow> rest_ty option" where
  "send_rest Key Schema =
     map_option (\<lambda>req. if extends_undefined req then Optional_undefined else Required req)
       (RequestOf Key Schema)"

text \<open>
  The argument lists a call may pass for a rest parameter of that type. \<open>[undefined?]\<close>
  takes no argument, or \<open>undefined\<close>. \<open>[T]\<close> takes one argument (its shape against
  \<open>T\<close> is not modelled); when \<open>T\<close> is \<open>void\<close> it takes none as well, since a call may
  omit a trailing argument of type \<open>void\<close>.
\<close>

fun accepts :: "rest_ty \<Rightarrow> 'p jsval list \<Rightarrow> bool" where
  "accepts Optional_undefined rest = (rest = [] \<or> rest = [Undefined])"
| "accepts (Required t) rest = (length rest = 1 \<or> (t = void_ty \<and> rest = []))"

text \<open>
  The results the sender declares: the adapter's, \<open>Promise<ResponsesOf<Schema>>\<close>, and
  \<open>send\<close>'s, \<open>Promise<ResponseOf<Key, Schema>>\<close>. Each is given by the type inside
  the promise.
\<close>

definition SenderHandler_result :: "('k \<times> Duplex) list \<Rightarrow> ty set" where
  "SenderHandler_result Schema = ResponsesOf Schema"

definition send_result :: "'k \<Rightarrow> ('k \<times> Duplex) list \<Rightarrow> ty option" where
  "send_result Key Schema = ResponseOf Key Schema"

text \<open>The schema of the example: \<open>math.add\<close>, \<open>counter.increment\<close>, \<open>monitring.ping\<close>.\<close>

definition example_Schema :: "(string \<times> Duplex) list" where
  "example_Schema =
     [(''math.add'',
         Duplex (Some (object_ty [(''a'', number_ty), (''b'', number_ty)])) (Some number_ty)),
      (''counter.increment'', Duplex (Some number_ty) None),
      (''monitring.ping'', Duplex None None)]"

section \<open>Programs to run the library on\<close>

text \<open>
  The state of a program that has allocated no \<open>Map\<close> yet, and three handlers that
  log their call (their name and the payload) in the world: one resolves to a function
  of the payload, one throws, one returns a rejected promise.
\<close>

definition init :: "'w \<Rightarrow> ('k, 'h, 'w) state" where
  "init w = \<lparr>maps = (\<lambda>_. Map.empty), next_ref = 0, world = w\<rparr>"

definition replying ::
  "string \<Rightarrow> ('p \<Rightarrow> 'r) \<Rightarrow> ('p, 'e, ('e, 'r) promise, (string \<times> 'p) list) Handler" where
  "replying name f p w = (Inr (Val (Fulfilled (Val (f p)))), w @ [(name, p)])"

definition throwing ::
  "string \<Rightarrow> 'e \<Rightarrow> ('p, 'e, ('e, 'r) promise, (string \<times> 'p) list) Handler" where
  "throwing name e p w = (Inl e, w @ [(name, p)])"

definition rejecting ::
  "string \<Rightarrow> 'e \<Rightarrow> ('p, 'e, ('e, 'r) promise, (string \<times> 'p) list) Handler" where
  "rejecting name e p w = (Inr (Val (Rejected e)), w @ [(name, p)])"

text \<open>
  The registration idiom of the example, \<open>receiver.route(key).to(handler)\<close>: an error
  thrown by \<open>route\<close> ends the statement.
\<close>

definition register ::
  "('k \<Rightarrow> string) \<Rightarrow> Receiver \<Rightarrow> 'k \<Rightarrow> 'h \<Rightarrow> ('k, 'h, 'w) state
     \<Rightarrow> (js_error + unit) \<times> ('k, 'h, 'w) state" where
  "register String receiver key handler s =
     (case route String receiver key s of
        (Inl e, s') \<Rightarrow> (Inl e, s')
      | (Inr router, s') \<Rightarrow> to router handler s')"

text \<open>
  A server: a new \<open>Receiver\<close> (its \<open>Map\<close> is at reference 0), and then with a
  handler for \<open>math.add\<close> that resolves to the sum of its payload. A payload is a pair of
  numbers or \<open>undefined\<close>.
\<close>

fun add :: "(int \<times> int) jsval \<Rightarrow> int" where
  "add (Val (a, b)) = a + b"
| "add Undefined = 0"

fun sub :: "(int \<times> int) jsval \<Rightarrow> int" where
  "sub (Val (a, b)) = a - b"
| "sub Undefined = 0"

type_synonym example_log = "(string \<times> (int \<times> int) jsval) list"

type_synonym example_state =
  "(string, ((int \<times> int) jsval, string, (string, int) promise, example_log) Handler,
    example_log) state"

definition empty_server :: example_state where
  "empty_server = snd (new_Receiver (init []))"

definition example_server :: example_state where
  "example_server =
     snd (register id (Receiver 0) ''math.add'' (replying ''math.add'' add) empty_server)"

text \<open>
  A server whose handlers fail: the one for \<open>math.add\<close> throws, the one for
  \<open>math.sub\<close> returns a rejected promise.
\<close>

definition failing_server :: example_state where
  "failing_server =
     snd (register id (Receiver 0) ''math.sub'' (rejecting ''math.sub'' ''too late'')
       (snd (register id (Receiver 0) ''math.add'' (throwing ''math.add'' ''overflow'')
               empty_server)))"

text \<open>
  Three transport adapters that log their call (the key and the payload) in their state:
  one returns what it was given, one throws, one returns a rejected promise.
\<close>

definition logging_adapter ::
  "(string, int \<times> int, string, string \<times> (int \<times> int) jsval, example_log) Sender" where
  "logging_adapter = Sender (\<lambda>key args s. (Inr (key, args), s @ [(key, args)]))"

definition failing_adapter ::
  "(string, int \<times> int, string, (string, int) promise jsval, example_log) Sender" where
  "failing_adapter = Sender (\<lambda>key args s. (Inl ''offline'', s @ [(key, args)]))"

definition rejecting_adapter ::
  "(string, int \<times> int, string, (string, int) promise jsval, example_log) Sender" where
  "rejecting_adapter =
     Sender (\<lambda>key args s. (Inr (Val (Rejected ''timeout'')), s @ [(key, args)]))"

section \<open>Client programs of the two receivers\<close>

text \<open>
  A client program is a list of calls on one receiver: \<open>route\<close> on a key, \<open>to\<close> on
  the \<open>i\<close>-th binder that \<open>route\<close> has returned so far, and \<open>receive\<close>. The handlers
  it registers take a context. Each call has an outcome: what \<open>route\<close> returned (the
  error, or the key and the table of the binder), what \<open>to\<close> returned, that there is
  no such binder, or what \<open>receive\<close> returned.
\<close>

datatype ('k, 'c, 'p, 'h) call = Route 'k | To nat 'h | Receive 'c 'k 'p

datatype ('k, 'e, 'v) outcome =
  Routed "js_error + 'k \<times> ref" | Bound "js_error + unit" | No_binder | Received "'e + 'v jsval"

text \<open>
  The program on a \<open>Receiver\<close>: a handler takes the context and the payload as one
  argument, the pair of them, and \<open>receive\<close> is called on that pair.
\<close>

definition step ::
  "('k \<Rightarrow> string) \<Rightarrow> Receiver \<Rightarrow> ('k, 'c, 'p, ('c, 'p, 'e, 'v, 'w) HandlerWithContext) call
     \<Rightarrow> 'k Router list \<Rightarrow> ('k, ('c \<times> 'p, 'e, 'v, 'w) Handler, 'w) state
     \<Rightarrow> ('k, 'e, 'v) outcome \<times> 'k Router list
         \<times> ('k, ('c \<times> 'p, 'e, 'v, 'w) Handler, 'w) state" where
  "step String receiver c routers s =
     (case c of
        Route key \<Rightarrow>
          (case route String receiver key s of
             (Inl e, s') \<Rightarrow> (Routed (Inl e), routers, s')
           | (Inr router, s') \<Rightarrow>
               (Routed (Inr (Router_key router, Router_routes router)), routers @ [router], s'))
      | To i handler \<Rightarrow>
          (if i < length routers
           then (case to (routers ! i) (\<lambda>(ctx, args). handler ctx args) s of
                   (r, s') \<Rightarrow> (Bound r, routers, s'))
           else (No_binder, routers, s))
      | Receive ctx key args \<Rightarrow>
          (case receive receiver key (ctx, args) s of
             (r, s') \<Rightarrow> (Received r, routers, s')))"

fun run ::
  "('k \<Rightarrow> string) \<Rightarrow> Receiver
     \<Rightarrow> ('k, 'c, 'p, ('c, 'p, 'e, 'v, 'w) HandlerWithContext) call list
     \<Rightarrow> 'k Router list \<Rightarrow> ('k, ('c \<times> 'p, 'e, 'v, 'w) Handler, 'w) state
     \<Rightarrow> ('k, 'e, 'v) outcome list \<times> 'k Router list
         \<times> ('k, ('c \<times> 'p, 'e, 'v, 'w) Handler, 'w) state" where
  "run String receiver [] routers s = ([], routers, s)"
| "run String receiver (c # cs) routers s =
     (case step String receiver c routers s of
        (out, routers', s') \<Rightarrow>
          (case run String receiver cs routers' s' of
             (outs, routers'', s'') \<Rightarrow> (out # outs, routers'', s'')))"

text \<open>The same program on a \<open>ReceiverWithContext\<close>.\<close>

definition step_ctx ::
  "('k \<Rightarrow> string) \<Rightarrow> ReceiverWithContext
     \<Rightarrow> ('k, 'c, 'p, ('c, 'p, 'e, 'v, 'w) HandlerWithContext) call
     \<Rightarrow> 'k RouterWithContext list \<Rightarrow> ('k, ('c, 'p, 'e, 'v, 'w) HandlerWithContext, 'w) state
     \<Rightarrow> ('k, 'e, 'v) outcome \<times> 'k RouterWithContext list
         \<times> ('k, ('c, 'p, 'e, 'v, 'w) HandlerWithContext, 'w) state" where
  "step_ctx String receiver c routers s =
     (case c of
        Route key \<Rightarrow>
          (case ReceiverWithContext_route String receiver key s of
             (Inl e, s') \<Rightarrow> (Routed (Inl e), routers, s')
           | (Inr router, s') \<Rightarrow>
               (Routed (Inr (RouterWithContext_key router, RouterWithContext_routes router)),
                routers @ [router], s'))
      | To i handler \<Rightarrow>
          (if i < length routers
           then (case RouterWithContext_to (routers ! i) handler s of
                   (r, s') \<Rightarrow> (Bound r, routers, s'))
           else (No_binder, routers, s))
      | Receive ctx key args \<Rightarrow>
          (case ReceiverWithContext_receive receiver ctx key args s of
             (r, s') \<Rightarrow> (Received r, routers, s')))"

fun run_ctx ::
  "('k \<Rightarrow> string) \<Rightarrow> ReceiverWithContext
     \<Rightarrow> ('k, 'c, 'p, ('c, 'p, 'e, 'v, 'w) HandlerWithContext) call list
     \<Rightarrow> 'k RouterWithContext list \<Rightarrow> ('k, ('c, 'p, 'e, 'v, 'w) HandlerWithContext, 'w) state
     \<Rightarrow> ('k, 'e, 'v) outcome list \<times> 'k RouterWithContext list
         \<times> ('k, ('c, 'p, 'e, 'v, 'w) HandlerWithContext, 'w) state" where
  "run_ctx String receiver [] routers s = ([], routers, s)"
| "run_ctx String receiver (c # cs) routers s =
     (case step_ctx String receiver c routers s of
        (out, routers', s') \<Rightarrow>
          (case run_ctx String receiver cs routers' s' of
             (outs, routers'', s'') \<Rightarrow> (out # outs, routers'', s'')))"

text \<open>
  How a state and a binder of the variant with context are read as those of the base
  receiver: the same tables, references and world, each stored handler taking the
  context and the payload as a pair.
\<close>

definition without_context ::
  "('k, ('c, 'p, 'e, 'v, 'w) HandlerWithContext, 'w) state
     \<Rightarrow> ('k, ('c \<times> 'p, 'e, 'v, 'w) Handler, 'w) state" where
  "without_context s =
     \<lparr>maps = (\<lambda>r key. map_option (\<lambda>handler (ctx, args). handler ctx args) (maps s r key)),
      next_ref = next_ref s, world = world s\<rparr>"

definition plain :: "'k RouterWithContext \<Rightarrow> 'k Router" where
  "plain router = Router (RouterWithContext_key router) (RouterWithContext_routes router)"

text \<open>
  A client program: it registers a handler for \<open>math.add\<close> that logs the context it is
  called with, asks for the same route again, dispatches to the key and to an unknown
  one, and calls \<open>to\<close> on a binder it never got. Below it, the outcomes.
\<close>

definition example_calls ::
  "(string, string, (int \<times> int) jsval,
    (string, (int \<times> int) jsval, string, (string, int) promise, example_log) HandlerWithContext)
   call list" where
  "example_calls =
     [Route ''math.add'', To 0 (\<lambda>ctx. replying ctx add), Route ''math.add'',
      Receive ''connection 1'' ''math.add'' (Val (1, 2)),
      Receive ''connection 2'' ''unknown.key'' Undefined,
      To 7 (\<lambda>ctx. replying ctx sub)]"

definition example_outcomes :: "(string, string, (string, int) promise) outcome list" where
  "example_outcomes =
     [Routed (Inr (''math.add'', 0)), Bound (Inr ()),
      Routed (Inl (Error (''The route on '' @ [CHR 0x22] @ ''math.add'' @ [CHR 0x22]
                          @ '' is already exists''))),
      Received (Inr (Val (Fulfilled (Val 3)))), Received (Inr Undefined), No_binder]"

section \<open>Facts about the example\<close>

lemma example_server_maps:
  "maps example_server 0 = [''math.add'' \<mapsto> replying ''math.add'' add]"
  by (simp add: example_server_def empty_server_def register_def route_def to_def
      new_Receiver_def init_def)

lemma example_server_world: "world example_server = []"
  by (simp add: example_server_def empty_server_def register_def route_def to_def
      new_Receiver_def init_def)

lemma failing_server_maps:
  "maps failing_server 0 = [''math.add'' \<mapsto> throwing ''math.add'' ''overflow'',
                            ''math.sub'' \<mapsto> rejecting ''math.sub'' ''too late'']"
  by (simp add: failing_server_def empty_server_def register_def route_def to_def
      new_Receiver_def init_def)

lemma failing_server_world: "world failing_server = []"
  by (simp add: failing_server_def empty_server_def register_def route_def to_def
      new_Receiver_def init_def)

section \<open>Registration\<close>

text \<open>
  C1. For every Receiver and every key that already has a registered handler, \<open>route\<close>
  on that key fails with the error of a route conflict, and the state after the failure
  is the state before it: the table still holds the first registration.
\<close>

theorem route_conflict:
  assumes "maps s (Receiver_routes rc) k = Some h"
  shows "route String rc k s =
           (Inl (Error (''The route on '' @ [CHR 0x22] @ String k @ [CHR 0x22]
                        @ '' is already exists'')), s)
         \<and> maps (snd (route String rc k s)) (Receiver_routes rc) k = Some h"
  using assms by (simp add: route_def)

theorem route_conflict_witness:
  "maps example_server 0 ''math.add'' = Some (replying ''math.add'' add)
   \<and> route id (Receiver 0) ''math.add'' example_server =
       (Inl (Error (''The route on '' @ [CHR 0x22] @ ''math.add'' @ [CHR 0x22]
                    @ '' is already exists'')), example_server)"
  using route_conflict[of example_server "Receiver 0" "''math.add''"
          "replying ''math.add'' add" id]
  by (simp add: example_server_maps)

text \<open>
  C8. For every Receiver and every key, \<open>route\<close> leaves the state as it was, and so
  does \<open>receive\<close> leave every table. When the key has no entry, \<open>route\<close> returns a
  binder for it, \<open>receive\<close> on the key after that still returns \<open>undefined\<close> and
  changes nothing, and it is \<open>to\<close> on the binder that puts the handler into the table.
\<close>

theorem route_inserts_nothing:
  "snd (route String rc k s) = s
   \<and> maps (snd (receive rc k' payload' s)) = maps s
   \<and> (maps s (Receiver_routes rc) k = None \<longrightarrow>
        fst (route String rc k s) = Inr (Router k (Receiver_routes rc))
        \<and> receive rc k payload (snd (route String rc k s))
            = (Inr Undefined, snd (route String rc k s))
        \<and> maps (snd (to (Router k (Receiver_routes rc)) h (snd (route String rc k s))))
             (Receiver_routes rc) k = Some h)"
  by (simp add: route_def receive_def to_def split: option.splits prod.splits)

theorem route_inserts_nothing_witness:
  "maps example_server 0 ''counter.increment'' = None
   \<and> route id (Receiver 0) ''counter.increment'' example_server
       = (Inr (Router ''counter.increment'' 0), example_server)
   \<and> receive (Receiver 0) ''counter.increment'' (Val (10, 0)) example_server
       = (Inr Undefined, example_server)
   \<and> maps (snd (to (Router ''counter.increment'' 0)
                  (replying ''counter.increment'' sub) example_server))
        0 ''counter.increment''
       = Some (replying ''counter.increment'' sub)"
proof -
  note fact = route_inserts_nothing[where String = id and rc = "Receiver 0"
      and k = "''counter.increment''" and s = example_server and payload = "Val (10, 0)"
      and h = "replying ''counter.increment'' sub"]
  have absent: "maps example_server 0 ''counter.increment'' = None"
    by (simp add: example_server_maps)
  from fact
  have same: "snd (route id (Receiver 0) ''counter.increment'' example_server) = example_server"
    by (rule conjunct1)
  from fact[THEN conjunct2, THEN conjunct2] absent same show ?thesis
    by (simp add: prod_eq_iff)
qed

text \<open>
  C10. \<open>to\<close> never fails and always writes its handler at its key. When two binders
  for a key with no entry are obtained by two calls of \<open>route\<close> before either
  \<open>to\<close>, both calls succeed, and the second \<open>to\<close> replaces the handler of the
  first: the state is the one a single registration of the second handler gives.
\<close>

theorem to_overwrites:
  "fst (to b h s) = Inr ()
   \<and> maps (snd (to b h s)) (Router_routes b) (Router_key b) = Some h
   \<and> (maps s (Receiver_routes rc) k = None \<longrightarrow>
        (\<exists>b1 b2 s1 s2 s3 s4.
            route String rc k s = (Inr b1, s1)
          \<and> route String rc k s1 = (Inr b2, s2)
          \<and> to b1 h1 s2 = (Inr (), s3)
          \<and> to b2 h2 s3 = (Inr (), s4)
          \<and> maps s3 (Receiver_routes rc) k = Some h1
          \<and> maps s4 (Receiver_routes rc) k = Some h2
          \<and> s4 = snd (to b2 h2 s)))"
  by (simp add: route_def to_def)

theorem to_overwrites_witness:
  "maps empty_server 0 ''math.add'' = None
   \<and> (\<exists>b1 b2 s1 s2 s3 s4.
          route id (Receiver 0) ''math.add'' empty_server = (Inr b1, s1)
        \<and> route id (Receiver 0) ''math.add'' s1 = (Inr b2, s2)
        \<and> to b1 (replying ''first'' add) s2 = (Inr (), s3)
        \<and> to b2 (replying ''second'' sub) s3 = (Inr (), s4)
        \<and> receive (Receiver 0) ''math.add'' (Val (5, 3)) s4
            = (Inr (Val (Fulfilled (Val 2))), s4\<lparr>world := [(''second'', Val (5, 3))]\<rparr>))"
proof -
  have absent: "maps empty_server 0 ''math.add'' = None"
    by (simp add: empty_server_def new_Receiver_def init_def)
  from to_overwrites[of "Router ''math.add'' 0" "replying ''second'' sub"
      empty_server "Receiver 0" "''math.add''" id "replying ''first'' add"
      "replying ''second'' sub"] absent
  obtain b1 b2 s1 s2 s3 s4 where run:
    "route id (Receiver 0) ''math.add'' empty_server = (Inr b1, s1)"
    "route id (Receiver 0) ''math.add'' s1 = (Inr b2, s2)"
    "to b1 (replying ''first'' add) s2 = (Inr (), s3)"
    "to b2 (replying ''second'' sub) s3 = (Inr (), s4)"
    "maps s4 0 ''math.add'' = Some (replying ''second'' sub)"
    "s4 = snd (to b2 (replying ''second'' sub) empty_server)"
    by auto
  have "world s4 = []"
    using run(6) by (simp add: to_def empty_server_def new_Receiver_def init_def)
  with run(5)
  have "receive (Receiver 0) ''math.add'' (Val (5, 3)) s4
          = (Inr (Val (Fulfilled (Val 2))), s4\<lparr>world := [(''second'', Val (5, 3))]\<rparr>)"
    by (simp add: receive_def replying_def)
  with absent run(1-4) show ?thesis by blast
qed

section \<open>Dispatch\<close>

text \<open>
  C3. For every Receiver and every key with no entry in its routing table,
  \<open>receive\<close> returns \<open>undefined\<close> for any payload: no error is raised, and the
  state, the world the handlers act on included, is left as it was, so no handler ran.
\<close>

theorem receive_unregistered:
  assumes "maps s (Receiver_routes rc) k = None"
  shows "receive rc k payload s = (Inr Undefined, s)"
  using assms by (simp add: receive_def)

theorem receive_unregistered_witness:
  "maps example_server 0 ''unknown.key'' = None
   \<and> receive (Receiver 0) ''unknown.key'' Undefined example_server
       = (Inr Undefined, example_server)"
  using receive_unregistered[of example_server "Receiver 0" "''unknown.key''" Undefined]
  by (simp add: example_server_maps)

text \<open>
  C2. For every Receiver whose table holds a handler at a key, \<open>receive\<close> on that key
  completes as one call of that handler on the payload does, and the world after it is
  the world after that one call: the handler runs once, on the payload as given, and
  its result is returned as it is. The table is not changed.
\<close>

theorem receive_registered:
  assumes "maps s (Receiver_routes rc) k = Some h"
  shows "receive rc k payload s =
           (fst (h payload (world s)), s\<lparr>world := snd (h payload (world s))\<rparr>)"
  using assms by (simp add: receive_def split: prod.splits)

theorem receive_registered_witness:
  "maps example_server 0 ''math.add'' = Some (replying ''math.add'' add)
   \<and> receive (Receiver 0) ''math.add'' (Val (1, 2)) example_server =
       (Inr (Val (Fulfilled (Val 3))), example_server\<lparr>world := [(''math.add'', Val (1, 2))]\<rparr>)"
  using receive_registered[of example_server "Receiver 0" "''math.add''"
          "replying ''math.add'' add" "Val (1, 2)"]
  by (simp add: example_server_maps example_server_world replying_def)

text \<open>
  C7. A failure of a registered handler reaches the caller of \<open>receive\<close> as it is, and a
  failure of the adapter reaches the caller of \<open>send\<close> as it is, whether the value was
  thrown or is the reason of a rejected promise that was returned; the state after
  \<open>receive\<close> or \<open>send\<close> is the state after that one call, so nothing was tried
  again.
\<close>

theorem failure_propagates:
  "(maps s (Receiver_routes rc) k = Some h \<and> h payload (world s) = (Inl e, w) \<longrightarrow>
      receive rc k payload s = (Inl e, s\<lparr>world := w\<rparr>))
   \<and> (maps s (Receiver_routes rc) k = Some h
        \<and> h payload (world s) = (Inr (Val (Rejected e)), w) \<longrightarrow>
      receive rc k payload s = (Inr (Val (Rejected e)), s\<lparr>world := w\<rparr>))
   \<and> (sender S k' (case rest of [] \<Rightarrow> Undefined | a # _ \<Rightarrow> a) t = (Inl e, t') \<longrightarrow>
        send S k' rest t = (Inl e, t'))
   \<and> (sender S' k' (case rest of [] \<Rightarrow> Undefined | a # _ \<Rightarrow> a) t
          = (Inr (Val (Rejected e)), t') \<longrightarrow>
        send S' k' rest t = (Inr (Val (Rejected e)), t'))"
  by (simp add: receive_def send_def)

theorem failure_propagates_witness:
  "receive (Receiver 0) ''math.add'' (Val (1, 2)) failing_server
     = (Inl ''overflow'', failing_server\<lparr>world := [(''math.add'', Val (1, 2))]\<rparr>)
   \<and> receive (Receiver 0) ''math.sub'' (Val (1, 2)) failing_server
     = (Inr (Val (Rejected ''too late'')),
        failing_server\<lparr>world := [(''math.sub'', Val (1, 2))]\<rparr>)
   \<and> send failing_adapter ''math.add'' [Val (1, 2)] []
     = (Inl ''offline'', [(''math.add'', Val (1, 2))])
   \<and> send rejecting_adapter ''monitring.ping'' [] []
     = (Inr (Val (Rejected ''timeout'')), [(''monitring.ping'', Undefined)])"
proof -
  have thrown: "receive (Receiver 0) ''math.add'' (Val (1, 2)) failing_server
     = (Inl ''overflow'', failing_server\<lparr>world := [(''math.add'', Val (1, 2))]\<rparr>)"
    using failure_propagates[where s = failing_server and rc = "Receiver 0"
        and k = "''math.add''" and h = "throwing ''math.add'' ''overflow''"
        and payload = "Val (1, 2)" and e = "''overflow''"
        and w = "[(''math.add'', Val (1, 2))]", THEN conjunct1]
    by (simp add: failing_server_maps failing_server_world throwing_def)
  have rejected: "receive (Receiver 0) ''math.sub'' (Val (1, 2)) failing_server
     = (Inr (Val (Rejected ''too late'')),
        failing_server\<lparr>world := [(''math.sub'', Val (1, 2))]\<rparr>)"
    using failure_propagates[where s = failing_server and rc = "Receiver 0"
        and k = "''math.sub''" and h = "rejecting ''math.sub'' ''too late''"
        and payload = "Val (1, 2)" and e = "''too late''"
        and w = "[(''math.sub'', Val (1, 2))]", THEN conjunct2, THEN conjunct1]
    by (simp add: failing_server_maps failing_server_world rejecting_def)
  have offline: "send failing_adapter ''math.add'' [Val (1, 2)] []
     = (Inl ''offline'', [(''math.add'', Val (1, 2))])"
    using failure_propagates[where S = failing_adapter and k' = "''math.add''"
        and rest = "[Val (1, 2)]" and t = "[]" and e = "''offline''"
        and t' = "[(''math.add'', Val (1, 2))]",
        THEN conjunct2, THEN conjunct2, THEN conjunct1]
    by (simp add: failing_adapter_def)
  have timeout: "send rejecting_adapter ''monitring.ping'' [] []
     = (Inr (Val (Rejected ''timeout'')), [(''monitring.ping'', Undefined)])"
    using failure_propagates[where S' = rejecting_adapter and k' = "''monitring.ping''"
        and rest = "[]" and t = "[]" and e = "''timeout''"
        and t' = "[(''monitring.ping'', Undefined)]",
        THEN conjunct2, THEN conjunct2, THEN conjunct2]
    by (simp add: rejecting_adapter_def)
  from thrown rejected offline timeout show ?thesis by simp
qed

section \<open>Sending\<close>

text \<open>
  C4. \<open>send\<close> with one argument after the key is one call of the adapter on the key
  and that argument; with none, one call on the key and \<open>undefined\<close>: the result and
  the state are those of the adapter's call. For a key of the schema and an argument
  list that its rest parameter accepts: when the request type is \<open>undefined\<close> the
  adapter gets the key and \<open>undefined\<close>; when it is another type, the list is one
  payload and the adapter gets the key and that payload, or, for \<open>void\<close> only, the
  list is empty and the adapter gets the key and \<open>undefined\<close>.
\<close>

theorem send_forwards:
  "send S k [payload] s = sender S k payload s
   \<and> send S k [] s = sender S k Undefined s
   \<and> (RequestOf k Schema = Some req \<and> send_rest k Schema = Some rt \<and> accepts rt rest \<longrightarrow>
        (if req = undefined_ty
         then send S k rest s = sender S k Undefined s
         else (\<exists>payload. rest = [payload] \<and> send S k rest s = sender S k payload s)
              \<or> (req = void_ty \<and> rest = [] \<and> send S k rest s = sender S k Undefined s)))"
proof -
  have one: "send S k [payload] s = sender S k payload s"
    by (simp add: send_def)
  have none: "send S k [] s = sender S k Undefined s"
    by (simp add: send_def)
  have typed: "if req = undefined_ty
         then send S k rest s = sender S k Undefined s
         else (\<exists>payload. rest = [payload] \<and> send S k rest s = sender S k payload s)
              \<or> (req = void_ty \<and> rest = [] \<and> send S k rest s = sender S k Undefined s)"
    if "RequestOf k Schema = Some req" "send_rest k Schema = Some rt" "accepts rt rest"
  proof (cases "req = undefined_ty")
    case True
    with that have "accepts Optional_undefined rest"
      by (simp add: send_rest_def extends_undefined_def)
    then have "rest = [] \<or> rest = [Undefined]" by simp
    then have "send S k rest s = sender S k Undefined s"
      by (auto simp add: send_def)
    with True show ?thesis by simp
  next
    case False
    with that have "accepts (Required req) rest"
      by (simp add: send_rest_def extends_undefined_def)
    then consider "length rest = 1" | "req = void_ty" "rest = []" by auto
    then show ?thesis
    proof cases
      case 1
      then obtain payload where "rest = [payload]"
        by (cases rest) auto
      then have "rest = [payload] \<and> send S k rest s = sender S k payload s"
        by (simp add: send_def)
      with False show ?thesis by auto
    next
      case 2
      with False none show ?thesis by simp
    qed
  qed
  from one none typed show ?thesis by blast
qed

theorem send_forwards_witness:
  "RequestOf ''math.add'' example_Schema
     = Some (object_ty [(''a'', number_ty), (''b'', number_ty)])
   \<and> send_rest ''math.add'' example_Schema
     = Some (Required (object_ty [(''a'', number_ty), (''b'', number_ty)]))
   \<and> accepts (Required (object_ty [(''a'', number_ty), (''b'', number_ty)]))
        [Val (1, 2) :: (int \<times> int) jsval]
   \<and> send logging_adapter ''math.add'' [Val (1, 2)] []
     = (Inr (''math.add'', Val (1, 2)), [(''math.add'', Val (1, 2))])
   \<and> RequestOf ''monitring.ping'' example_Schema = Some undefined_ty
   \<and> send_rest ''monitring.ping'' example_Schema = Some Optional_undefined
   \<and> accepts Optional_undefined ([] :: (int \<times> int) jsval list)
   \<and> send logging_adapter ''monitring.ping'' [] []
     = (Inr (''monitring.ping'', Undefined), [(''monitring.ping'', Undefined)])"
proof -
  have req: "RequestOf ''math.add'' example_Schema
     = Some (object_ty [(''a'', number_ty), (''b'', number_ty)])"
    "RequestOf ''monitring.ping'' example_Schema = Some undefined_ty"
    by (simp_all add: RequestOf_def example_Schema_def Duplex_def)
  have rest: "send_rest ''math.add'' example_Schema
     = Some (Required (object_ty [(''a'', number_ty), (''b'', number_ty)]))"
    "send_rest ''monitring.ping'' example_Schema = Some Optional_undefined"
    by (simp_all add: send_rest_def extends_undefined_def req)
  have add: "send logging_adapter ''math.add'' [Val (1, 2)] []
     = (Inr (''math.add'', Val (1, 2)), [(''math.add'', Val (1, 2))])"
    using send_forwards[of logging_adapter "''math.add''" "Val (1, 2)" "[]" example_Schema
        "object_ty [(''a'', number_ty), (''b'', number_ty)]"
        "Required (object_ty [(''a'', number_ty), (''b'', number_ty)])" "[Val (1, 2)]"]
    by (simp add: logging_adapter_def)
  have ping: "send logging_adapter ''monitring.ping'' [] []
     = (Inr (''monitring.ping'', Undefined), [(''monitring.ping'', Undefined)])"
    using send_forwards[of logging_adapter "''monitring.ping''" _ "[]" example_Schema
        undefined_ty Optional_undefined "[]"] req rest
    by (simp add: logging_adapter_def)
  from req rest add ping show ?thesis by simp
qed

text \<open>
  C5. With a handler registered at a key, and a sender whose adapter calls \<open>receive\<close>
  of that receiver, \<open>send\<close> on the key and a payload completes as the handler's call
  on the payload does, with the world that call leaves, and awaiting the one gives what
  awaiting the other gives.
\<close>

theorem round_trip:
  assumes "maps s (Receiver_routes rc) k = Some h"
  shows "send (Sender (\<lambda>key args. receive rc key args)) k [x] s
           = (fst (h x (world s)), s\<lparr>world := snd (h x (world s))\<rparr>)
         \<and> await (fst (send (Sender (\<lambda>key args. receive rc key args)) k [x] s))
           = await (fst (h x (world s)))"
  using assms by (simp add: send_def receive_def split: prod.splits)

theorem round_trip_witness:
  "maps example_server 0 ''math.add'' = Some (replying ''math.add'' add)
   \<and> send (Sender (\<lambda>key args. receive (Receiver 0) key args)) ''math.add'' [Val (1, 2)]
        example_server
     = (Inr (Val (Fulfilled (Val 3))), example_server\<lparr>world := [(''math.add'', Val (1, 2))]\<rparr>)
   \<and> await (fst (send (Sender (\<lambda>key args. receive (Receiver 0) key args)) ''math.add''
                    [Val (1, 2)] example_server))
     = Some (Inr (Val 3))
   \<and> await (fst (replying ''math.add'' add (Val (1, 2)) (world example_server)))
     = Some (Inr (Val 3))"
  using round_trip[of example_server "Receiver 0" "''math.add''" "replying ''math.add'' add"
      "Val (1, 2)"]
  by (simp add: example_server_maps example_server_world replying_def)

section \<open>The types of the results\<close>

text \<open>
  C6. On the schema of the example, \<open>ResponseOf\<close> gives the response type of each key,
  and so does the result \<open>send\<close> declares; \<open>ResponsesOf\<close>, and with it the result
  the adapter declares, gives the request types: the payload of \<open>math.add\<close> is among
  them, and \<open>void\<close>, the response of two of the three keys, is not.
\<close>

theorem ResponsesOf_gives_requests:
  "ResponsesOf example_Schema
     = {object_ty [(''a'', number_ty), (''b'', number_ty)], number_ty, undefined_ty}
   \<and> SenderHandler_result example_Schema = RequestsOf example_Schema
   \<and> ResponseOf ''math.add'' example_Schema = Some number_ty
   \<and> ResponseOf ''counter.increment'' example_Schema = Some void_ty
   \<and> ResponseOf ''monitring.ping'' example_Schema = Some void_ty
   \<and> send_result ''counter.increment'' example_Schema = Some void_ty
   \<and> void_ty \<notin> SenderHandler_result example_Schema
   \<and> RequestOf ''math.add'' example_Schema
       = Some (object_ty [(''a'', number_ty), (''b'', number_ty)])
   \<and> object_ty [(''a'', number_ty), (''b'', number_ty)] \<in> SenderHandler_result example_Schema"
  by (simp add: ResponsesOf_def RequestsOf_def ResponseOf_def RequestOf_def KeyOf_def
      SenderHandler_result_def send_result_def example_Schema_def Duplex_def)

section \<open>The receiver with context\<close>

lemma step_simulation:
  "step String (Receiver r) c (map plain routers) (without_context s) =
     (case step_ctx String (ReceiverWithContext r) c routers s of
        (out, routers', s') \<Rightarrow> (out, map plain routers', without_context s'))"
proof (cases c)
  case (Route key)
  then show ?thesis
    by (simp add: step_def step_ctx_def route_def ReceiverWithContext_route_def
        without_context_def plain_def)
next
  case (To i handler)
  then show ?thesis
    by (auto simp add: step_def step_ctx_def to_def RouterWithContext_to_def
        without_context_def plain_def fun_eq_iff)
next
  case (Receive ctx key args)
  then show ?thesis
    by (simp add: step_def step_ctx_def receive_def ReceiverWithContext_receive_def
        without_context_def split: option.splits prod.splits)
qed

lemma new_simulation:
  "new_Receiver (without_context s) =
     (case new_ReceiverWithContext s of
        (receiver, s') \<Rightarrow> (Receiver (ReceiverWithContext_routes receiver), without_context s'))"
  by (simp add: new_Receiver_def new_ReceiverWithContext_def without_context_def fun_eq_iff)

text \<open>
  C9. Every client program gives the same outcomes on a \<open>ReceiverWithContext\<close> as on a
  \<open>Receiver\<close> whose handlers take the context and the payload as one argument: each
  \<open>route\<close> succeeds or fails with the same error, each \<open>to\<close> registers the same
  handler, each \<open>receive\<close> returns the same, and the binders, tables and world after
  the program are the same. The constructors correspond as well.
\<close>

theorem with_context_simulates:
  "run String (Receiver r) cs (map plain routers) (without_context s) =
     (case run_ctx String (ReceiverWithContext r) cs routers s of
        (outs, routers', s') \<Rightarrow> (outs, map plain routers', without_context s'))
   \<and> new_Receiver (without_context s) =
     (case new_ReceiverWithContext s of
        (receiver, s') \<Rightarrow> (Receiver (ReceiverWithContext_routes receiver), without_context s'))"
proof
  show "run String (Receiver r) cs (map plain routers) (without_context s) =
     (case run_ctx String (ReceiverWithContext r) cs routers s of
        (outs, routers', s') \<Rightarrow> (outs, map plain routers', without_context s'))"
  proof (induction cs arbitrary: routers s)
    case Nil
    show ?case by simp
  next
    case (Cons c cs)
    show ?case
      by (simp add: step_simulation Cons.IH split: prod.splits)
  qed
next
  show "new_Receiver (without_context s) =
     (case new_ReceiverWithContext s of
        (receiver, s') \<Rightarrow> (Receiver (ReceiverWithContext_routes receiver), without_context s'))"
    by (rule new_simulation)
qed

theorem with_context_simulates_witness:
  "fst (run_ctx id (ReceiverWithContext 0) example_calls []
          (snd (new_ReceiverWithContext (init [])))) = example_outcomes
   \<and> fst (run id (Receiver 0) example_calls []
           (without_context (snd (new_ReceiverWithContext (init []))))) = example_outcomes"
proof -
  have ctx: "fst (run_ctx id (ReceiverWithContext 0) example_calls []
          (snd (new_ReceiverWithContext (init [])))) = example_outcomes"
    by (simp add: example_calls_def example_outcomes_def step_ctx_def
        ReceiverWithContext_route_def RouterWithContext_to_def ReceiverWithContext_receive_def
        new_ReceiverWithContext_def init_def replying_def)
  from with_context_simulates[of id 0 example_calls "[]" "snd (new_ReceiverWithContext (init []))",
      THEN conjunct1]
  have "fst (run id (Receiver 0) example_calls []
           (without_context (snd (new_ReceiverWithContext (init [])))))
        = fst (run_ctx id (ReceiverWithContext 0) example_calls []
          (snd (new_ReceiverWithContext (init []))))"
    by (simp add: split_beta)
  with ctx show ?thesis by simp
qed

end
